theory Spec2Isabelle
  imports Complex_Main
begin

section \<open>Data model\<close>

text \<open>
  Timestamps (the \<open>DateTime\<close> columns, \<open>datetime.utcnow()\<close>, the database's
  \<open>now()\<close>) are integers; floats (\<open>time.time()\<close>, the \<open>Float\<close> columns)
  are reals.
\<close>

type_synonym datetime = int

text \<open>Python values that cross the boundary to the engine and to \<open>json\<close>.\<close>

datatype json =
    JNull
  | JBool bool
  | JNum real
  | JStr string
  | JArr "json list"
  | JObj "(string \<times> json) list"

text \<open>Exceptions; \<open>str_exn\<close> is Python's \<open>str(e)\<close>.\<close>

datatype exn =
    AttributeError string
  | TypeError string
  | JSONDecodeError string
  | DBError string
  | OSError string
  | EngineError string
  | HTTPException int string

fun str_exn :: "exn \<Rightarrow> string" where
  "str_exn (AttributeError m) = m"
| "str_exn (TypeError m) = m"
| "str_exn (JSONDecodeError m) = m"
| "str_exn (DBError m) = m"
| "str_exn (OSError m) = m"
| "str_exn (EngineError m) = m"
| "str_exn (HTTPException c m) = m"

text \<open>
  \<open>db_models.TranscriptionJob\<close>: one row of the table \<open>transcription_jobs\<close>.
  The primary key \<open>id\<close> is the field \<open>job_id\<close>. \<open>status\<close> is a
  \<open>String(20)\<close> column and stays a string. A nullable column is an option.
  \<open>duration\<close> holds the value the worker assigns to it, \<open>result.get("duration")\<close>,
  with \<open>JNull\<close> for \<open>None\<close>.
\<close>

record job =
  job_id :: string
  status :: string
  audio_path :: string
  original_filename :: "string option"
  transcript :: "string option"
  error_message :: "string option"
  model :: string
  language :: "string option"
  diarize :: bool
  min_speakers :: "int option"
  max_speakers :: "int option"
  chunk_size :: int
  vad_onset :: real
  vad_offset :: real
  duration :: json
  processing_time :: "real option"
  created_at :: datetime
  updated_at :: datetime
  completed_at :: "datetime option"

text \<open>
  The keyword arguments of the worker's one call of \<open>transcriber.transcribe\<close>;
  \<open>arg_whispermodel\<close> is what \<open>load_model_instance(job.model)\<close> returned.
\<close>

record transcribe_call =
  arg_audio_file :: string
  arg_batch_size :: int
  arg_chunk_size :: int
  arg_asr_options :: "(string \<times> json) list"
  arg_language :: "string option"
  arg_whispermodel :: string
  arg_align :: bool
  arg_diarize :: bool
  arg_request_id :: string
  arg_task :: string

text \<open>
  What the worker and the API handlers act on: the table (rows in insertion order),
  the files that exist, the files whose removal fails, the worker's
  \<open>_current_job_id\<close>, and the trace of what was logged, slept and called.
\<close>

datatype event =
    LogInfo string
  | LogWarning string
  | LogError string
  | Slept real
  | CleanupCalled string
  | TranscribeCalled transcribe_call

record world =
  store :: "job list"
  files :: "string set"
  locked :: "string set"
  current_job_id :: "string option"
  trace :: "event list"

definition emit :: "event \<Rightarrow> world \<Rightarrow> world" where
  "emit e w = w\<lparr>trace := trace w @ [e]\<rparr>"

section \<open>Table access\<close>

text \<open>\<open>db.query(TranscriptionJob).filter(TranscriptionJob.id == i).first()\<close>\<close>

definition query_by_id :: "job list \<Rightarrow> string \<Rightarrow> job option" where
  "query_by_id st i = find (\<lambda>r. job_id r = i) st"

text \<open>
  \<open>.filter(status == "pending").order_by(created_at.asc()).first()\<close>; rows with equal
  \<open>created_at\<close> keep their table order.
\<close>

definition query_oldest_pending :: "job list \<Rightarrow> job option" where
  "query_oldest_pending st =
     (case sort_key created_at (filter (\<lambda>r. status r = ''pending'') st) of
        [] \<Rightarrow> None
      | r # _ \<Rightarrow> Some r)"

text \<open>
  A successful \<open>db.commit()\<close> of a changed row: \<open>UPDATE ... WHERE id = ?\<close>, with
  \<open>updated_at\<close> set by \<open>onupdate=func.now()\<close>.
\<close>

definition commit_row :: "datetime \<Rightarrow> job \<Rightarrow> job list \<Rightarrow> job list" where
  "commit_row now r st =
     map (\<lambda>x. if job_id x = job_id r then r\<lparr>updated_at := now\<rparr> else x) st"

section \<open>Files\<close>

text \<open>\<open>os.path.exists\<close> is false on the empty path.\<close>

definition os_path_exists :: "world \<Rightarrow> string \<Rightarrow> bool" where
  "os_path_exists w p \<longleftrightarrow> p \<noteq> [] \<and> p \<in> files w"

definition os_remove :: "world \<Rightarrow> string \<Rightarrow> exn + world" where
  "os_remove w p =
     (if \<not> os_path_exists w p then Inl (OSError ''No such file or directory'')
      else if p \<in> locked w then Inl (OSError ''Permission denied'')
      else Inr (w\<lparr>files := files w - {p}\<rparr>))"

text \<open>
  \<open>TranscriptionWorker._cleanup_audio_file\<close>. \<open>cleanup_try\<close> is the body of its
  \<open>try\<close>; the call itself is recorded in the trace.
\<close>

definition cleanup_try :: "world \<Rightarrow> string \<Rightarrow> exn + world" where
  "cleanup_try w p =
     (if p \<noteq> [] \<and> os_path_exists w p then
        (case os_remove w p of
           Inl e \<Rightarrow> Inl e
         | Inr w1 \<Rightarrow> Inr (emit (LogInfo (''Deleted audio file: '' @ p)) w1))
      else Inr w)"

definition cleanup_audio_file :: "world \<Rightarrow> string \<Rightarrow> exn + world" where
  "cleanup_audio_file w p =
     (let w0 = emit (CleanupCalled p) w
      in case cleanup_try w0 p of
           Inl e \<Rightarrow> Inr (emit (LogWarning (''Failed to delete audio file '' @ p @ '': '' @ str_exn e)) w0)
         | Inr w1 \<Rightarrow> Inr w1)"

section \<open>The worker: claiming a job\<close>

text \<open>
  What the database does during one \<open>_get_next_job\<close>: whether the query, the commit
  or the refresh raises, and the database's clock.
\<close>

record claim_env =
  query_fault :: "exn option"
  commit_fault :: "exn option"
  refresh_fault :: "exn option"
  db_now :: datetime

definition claim_ok :: "datetime \<Rightarrow> claim_env" where
  "claim_ok now = \<lparr>query_fault = None, commit_fault = None, refresh_fault = None, db_now = now\<rparr>"

text \<open>\<open>except Exception as e: db.rollback(); logger.error(...); return None\<close>\<close>

definition claim_failed :: "exn \<Rightarrow> world \<Rightarrow> world \<times> job option" where
  "claim_failed e w = (emit (LogError (''Error getting next job: '' @ str_exn e)) w, None)"

definition get_next_job :: "claim_env \<Rightarrow> world \<Rightarrow> world \<times> job option" where
  "get_next_job env w =
     (case query_fault env of
        Some e \<Rightarrow> claim_failed e w
      | None \<Rightarrow>
         (case query_oldest_pending (store w) of
            None \<Rightarrow> (w, None)
          | Some j \<Rightarrow>
             (case commit_fault env of
                Some e \<Rightarrow> claim_failed e w
              | None \<Rightarrow>
                 (let w1 = w\<lparr>store := commit_row (db_now env) (j\<lparr>status := ''processing''\<rparr>) (store w)\<rparr>
                  in case refresh_fault env of
                       Some e \<Rightarrow> claim_failed e w1
                     | None \<Rightarrow>
                        (case query_by_id (store w1) (job_id j) of
                           None \<Rightarrow> claim_failed (DBError ''Could not refresh instance'') w1
                         | Some r \<Rightarrow> (emit (LogInfo (''Picked up job: '' @ job_id r)) w1, Some r))))))"

section \<open>The worker: processing a job\<close>

text \<open>
  What surrounds one \<open>_process_job\<close>: the two collaborators and \<open>json.dumps\<close>
  (each returns or raises), an exception raised while the event loop is set up (before
  \<open>start_time\<close> is bound), the readings of \<open>time.time()\<close> and of the clocks, and
  whether each database statement raises. The statements are, in the \<open>try\<close> block, the
  query of line 168, the commit of line 187 and the read of \<open>job.audio_path\<close> at line
  190; in the handler, the read of \<open>job.id\<close> at line 193, the query of line 197, the
  commit of line 202 and the read of \<open>job.audio_path\<close> at line 205. The session is made
  by \<open>sessionmaker(autocommit=False, autoflush=False, bind=engine)\<close>, with
  \<open>expire_on_commit\<close> left at its default: a commit (and the rollback of a commit that
  raises) expires the instance \<open>job\<close> is bound to, and the next read of one of its
  attributes is a \<open>SELECT\<close>, which can raise like any other statement. A commit that raises leaves the table as it was.
\<close>

record proc_env =
  event_loop_fault :: "exn option"
  load_model_instance :: "string \<Rightarrow> exn + string"
  transcribe :: "transcribe_call \<Rightarrow> exn + json"
  json_dumps :: "json \<Rightarrow> exn + string"
  t_start :: real
  t_end :: real
  t_except :: real
  utcnow :: datetime
  q1_fault :: "exn option"
  c1_fault :: "exn option"
  now1 :: datetime
  reload1_fault :: "exn option"
  reload_handler_fault :: "exn option"
  q2_fault :: "exn option"
  c2_fault :: "exn option"
  now2 :: datetime
  reload2_fault :: "exn option"

text \<open>\<open>d.get(k, default)\<close>: only a dict has \<open>get\<close>.\<close>

fun dict_get :: "json \<Rightarrow> string \<Rightarrow> json \<Rightarrow> exn + json" where
  "dict_get (JObj kvs) k d = Inr (case map_of kvs k of None \<Rightarrow> d | Some v \<Rightarrow> v)"
| "dict_get _ k d = Inl (AttributeError ''object has no attribute get'')"

text \<open>The arguments of \<open>transcriber.transcribe(...)\<close>, lines 150 to 161.\<close>

definition transcribe_args :: "job \<Rightarrow> string \<Rightarrow> transcribe_call" where
  "transcribe_args j m =
     \<lparr>arg_audio_file = audio_path j, arg_batch_size = 16, arg_chunk_size = chunk_size j,
      arg_asr_options = [], arg_language = language j, arg_whispermodel = m,
      arg_align = True, arg_diarize = diarize j, arg_request_id = job_id j,
      arg_task = ''transcribe''\<rparr>"

text \<open>
  Lines 173 to 182: the serialised transcript and the duration, from the engine's result.
\<close>

definition build_transcript :: "proc_env \<Rightarrow> json \<Rightarrow> exn + (string \<times> json)" where
  "build_transcript env result =
     (case dict_get result ''segments'' (JArr []) of
        Inl e \<Rightarrow> Inl e
      | Inr segments \<Rightarrow>
         (case (case segments of
                  JObj kvs \<Rightarrow> dict_get segments ''segments'' (JArr [])
                | _ \<Rightarrow> Inr segments) of
            Inl e \<Rightarrow> Inl e
          | Inr segs \<Rightarrow>
             (case dict_get result ''text'' (JStr []) of
                Inl e \<Rightarrow> Inl e
              | Inr txt \<Rightarrow>
                 (case dict_get result ''language'' (JStr []) of
                    Inl e \<Rightarrow> Inl e
                  | Inr lang \<Rightarrow>
                     (case json_dumps env
                             (JObj [(''text'', txt), (''segments'', segs), (''language'', lang)]) of
                        Inl e \<Rightarrow> Inl e
                      | Inr s \<Rightarrow>
                         (case dict_get result ''duration'' JNull of
                            Inl e \<Rightarrow> Inl e
                          | Inr d \<Rightarrow> Inr (s, d)))))))"

text \<open>
  How the \<open>try\<close> block of \<open>_process_job\<close> ends: the world, what the variable
  \<open>job\<close> is bound to, whether that instance has been expired by a commit,
  \<open>start_time\<close> when it is bound, and the exception raised.
\<close>

record try_end =
  te_world :: world
  te_job :: "job option"
  te_expired :: bool
  te_start :: "real option"
  te_raised :: "exn option"

definition raised :: "world \<Rightarrow> job option \<Rightarrow> bool \<Rightarrow> real option \<Rightarrow> exn \<Rightarrow> try_end" where
  "raised w jb ex st e =
     \<lparr>te_world = w, te_job = jb, te_expired = ex, te_start = st, te_raised = Some e\<rparr>"

text \<open>Lines 170 to 184: the fields assigned when the engine has returned.\<close>

definition completed_row :: "proc_env \<Rightarrow> job \<Rightarrow> string \<Rightarrow> json \<Rightarrow> job" where
  "completed_row env row s d =
     row\<lparr>status := ''completed'', transcript := Some s, duration := d,
         processing_time := Some (t_end env - t_start env),
         completed_at := Some (utcnow env)\<rparr>"

text \<open>
  Lines 168 to 190: the result is written and committed, \<open>job.audio_path\<close> is read
  back from the table, and the audio file removed. An exception raised by that read
  leaves the \<open>try\<close> block with the row already committed as \<open>completed\<close>.
\<close>

definition write_completed :: "proc_env \<Rightarrow> world \<Rightarrow> job \<Rightarrow> json \<Rightarrow> try_end" where
  "write_completed env w job result =
     (let st = Some (t_start env)
      in case q1_fault env of
           Some e \<Rightarrow> raised w (Some job) False st e
         | None \<Rightarrow>
            (case query_by_id (store w) (job_id job) of
               None \<Rightarrow> raised w None False st (AttributeError ''NoneType has no attribute status'')
             | Some row \<Rightarrow>
                (case build_transcript env result of
                   Inl e \<Rightarrow> raised w (Some row) False st e
                 | Inr (s, d) \<Rightarrow>
                    (let row1 = completed_row env row s d;
                         w1 = emit (LogInfo (''Job '' @ job_id row1 @ '' completed successfully'')) w
                     in case c1_fault env of
                          Some e \<Rightarrow> raised w1 (Some row) True st e
                        | None \<Rightarrow>
                           (let w2 = w1\<lparr>store := commit_row (now1 env) row1 (store w1)\<rparr>
                            in case reload1_fault env of
                                 Some e \<Rightarrow> raised w2 (Some row1) True st e
                               | None \<Rightarrow>
                                  (case cleanup_audio_file w2 (audio_path row1) of
                                     Inl e \<Rightarrow> raised w2 (Some row1) False st e
                                   | Inr w3 \<Rightarrow>
                                      \<lparr>te_world = w3, te_job = Some row1, te_expired = False,
                                       te_start = st, te_raised = None\<rparr>))))))"

text \<open>Lines 126 to 190, the \<open>try\<close> block.\<close>

definition process_try :: "proc_env \<Rightarrow> world \<Rightarrow> job \<Rightarrow> try_end" where
  "process_try env w job =
     (let w0 = emit (LogInfo (''Processing job '' @ job_id job)) w
      in case event_loop_fault env of
           Some e \<Rightarrow> raised w0 (Some job) False None e
         | None \<Rightarrow>
            (case load_model_instance env (model job) of
               Inl e \<Rightarrow> raised w0 (Some job) False (Some (t_start env)) e
             | Inr m \<Rightarrow>
                (let w1 = emit (TranscribeCalled (transcribe_args job m)) w0
                 in case transcribe env (transcribe_args job m) of
                      Inl e \<Rightarrow> raised w1 (Some job) False (Some (t_start env)) e
                    | Inr result \<Rightarrow> write_completed env w1 job result)))"

text \<open>
  Lines 192 to 208, the handler. Its first statement reads \<open>job.id\<close>, which raises
  when \<open>job\<close> was rebound to \<open>None\<close>, and can raise when the instance is expired;
  the rest is inside its own \<open>try\<close>, whose handler logs and rolls back. The handler
  writes \<open>failed\<close> to the row it reads, whatever the status of that row.
\<close>

definition update_failed :: "exn \<Rightarrow> world \<Rightarrow> world" where
  "update_failed ue w = emit (LogError (''Error updating failed job: '' @ str_exn ue)) w"

text \<open>Lines 199 to 201: the fields assigned when an exception was caught.\<close>

definition failed_row :: "proc_env \<Rightarrow> real option \<Rightarrow> exn \<Rightarrow> job \<Rightarrow> job" where
  "failed_row env st e row =
     row\<lparr>status := ''failed'', error_message := Some (str_exn e),
         processing_time := (case st of Some t0 \<Rightarrow> Some (t_except env - t0) | None \<Rightarrow> None)\<rparr>"

definition process_except ::
  "proc_env \<Rightarrow> world \<Rightarrow> job option \<Rightarrow> bool \<Rightarrow> real option \<Rightarrow> exn \<Rightarrow> world \<times> exn option" where
  "process_except env w jb expired st e =
     (case jb of
        None \<Rightarrow> (w, Some (AttributeError ''NoneType has no attribute id''))
      | Some j0 \<Rightarrow>
         (case (if expired then reload_handler_fault env else None) of
            Some he \<Rightarrow> (w, Some he)
          | None \<Rightarrow>
             (let w1 = emit (LogError (''Error processing job '' @ job_id j0 @ '': '' @ str_exn e)) w
              in case q2_fault env of
                   Some ue \<Rightarrow> (update_failed ue w1, None)
                 | None \<Rightarrow>
                    (case query_by_id (store w1) (job_id j0) of
                       None \<Rightarrow> (w1, None)
                     | Some row \<Rightarrow>
                        (let row1 = failed_row env st e row
                         in case c2_fault env of
                              Some ue \<Rightarrow> (update_failed ue w1, None)
                            | None \<Rightarrow>
                               (let w2 = w1\<lparr>store := commit_row (now2 env) row1 (store w1)\<rparr>
                                in case reload2_fault env of
                                     Some ue \<Rightarrow> (update_failed ue w2, None)
                                   | None \<Rightarrow>
                                      (case cleanup_audio_file w2 (audio_path row1) of
                                         Inl ue \<Rightarrow> (update_failed ue w2, None)
                                       | Inr w3 \<Rightarrow> (w3, None))))))))"

text \<open>
  \<open>TranscriptionWorker._process_job\<close>: the world it leaves and the exception it lets
  through, if any. The \<open>finally\<close> clause clears \<open>_current_job_id\<close>.
\<close>

definition process_job :: "proc_env \<Rightarrow> world \<Rightarrow> job \<Rightarrow> world \<times> exn option" where
  "process_job env w job =
     (let t = process_try env (w\<lparr>current_job_id := Some (job_id job)\<rparr>) job;
          (w1, r) = (case te_raised t of
                       None \<Rightarrow> (te_world t, None)
                     | Some e \<Rightarrow>
                         process_except env (te_world t) (te_job t) (te_expired t) (te_start t) e)
      in (w1\<lparr>current_job_id := None\<rparr>, r))"

section \<open>The API handlers\<close>

text \<open>
  \<open>create_job\<close>: the identifier drawn by \<open>uuid.uuid4()\<close>, the path under the upload
  directory the handler composes from it, the form fields, whether writing the file
  raises, and the database's clock.
\<close>

record create_args =
  new_id :: string
  new_path :: string
  new_filename :: "string option"
  new_model :: string
  new_language :: "string option"
  new_diarize :: bool
  new_min_speakers :: "int option"
  new_max_speakers :: "int option"
  new_chunk_size :: int
  new_vad_onset :: real
  new_vad_offset :: real
  save_fault :: "exn option"
  insert_now :: datetime

definition new_job :: "create_args \<Rightarrow> job" where
  "new_job a =
     \<lparr>job_id = new_id a, status = ''pending'', audio_path = new_path a,
      original_filename = new_filename a, transcript = None, error_message = None,
      model = new_model a, language = new_language a, diarize = new_diarize a,
      min_speakers = new_min_speakers a, max_speakers = new_max_speakers a,
      chunk_size = new_chunk_size a, vad_onset = new_vad_onset a,
      vad_offset = new_vad_offset a, duration = JNull, processing_time = None,
      created_at = insert_now a, updated_at = insert_now a, completed_at = None\<rparr>"

text \<open>
  The file is written, then the row is added; a row whose primary key is already in the
  table makes the commit raise.
\<close>

definition create_job :: "create_args \<Rightarrow> world \<Rightarrow> world \<times> (exn + job)" where
  "create_job a w =
     (case save_fault a of
        Some e \<Rightarrow>
          (emit (LogError (''Failed to save audio file: '' @ str_exn e)) w,
           Inl (HTTPException 500 ''Failed to save audio file''))
      | None \<Rightarrow>
         (let w1 = emit (LogInfo (''Saved audio file: '' @ new_path a))
                     (w\<lparr>files := insert (new_path a) (files w)\<rparr>)
          in if new_id a \<in> set (map job_id (store w1))
             then (w1, Inl (DBError ''UNIQUE constraint failed: transcription_jobs.id''))
             else (emit (LogInfo (''Created job: '' @ new_id a))
                     (w1\<lparr>store := store w1 @ [new_job a]\<rparr>),
                   Inr (new_job a))))"

definition delete_job :: "string \<Rightarrow> world \<Rightarrow> world \<times> (exn + string)" where
  "delete_job i w =
     (case query_by_id (store w) i of
        None \<Rightarrow> (w, Inl (HTTPException 404 (''Job not found: '' @ i)))
      | Some job \<Rightarrow>
         (let w1 = (if audio_path job \<noteq> [] \<and> os_path_exists w (audio_path job) then
                      (case os_remove w (audio_path job) of
                         Inl e \<Rightarrow> emit (LogWarning (''Failed to delete audio file: '' @ str_exn e)) w
                       | Inr w' \<Rightarrow> w')
                    else w)
          in (emit (LogInfo (''Deleted job: '' @ i))
                (w1\<lparr>store := filter (\<lambda>r. job_id r \<noteq> i) (store w1)\<rparr>),
              Inr (''Job '' @ i @ '' deleted''))))"













section \<open>The worker loop\<close>

text \<open>
  A request served by an API thread while the worker is between claiming a job and
  reading it again.
\<close>

datatype api_call = ApiCreate create_args | ApiDelete string

fun serve :: "api_call \<Rightarrow> world \<Rightarrow> world" where
  "serve (ApiCreate a) w = fst (create_job a w)"
| "serve (ApiDelete i) w = fst (delete_job i w)"

text \<open>
  One pass of the \<open>while\<close> loop of \<open>_run\<close>: the value of \<open>self._running\<close> read at
  its head, what the database and the collaborators do, and the requests served
  meanwhile.
\<close>

record iter_env =
  running :: bool
  claim :: claim_env
  proc :: proc_env
  api_calls :: "api_call list"

text \<open>The body of the \<open>try\<close> in \<open>_run\<close>, lines 79 to 83.\<close>

definition iteration_try :: "real \<Rightarrow> iter_env \<Rightarrow> world \<Rightarrow> world \<times> exn option" where
  "iteration_try poll_interval e w =
     (case get_next_job (claim e) w of
        (w1, Some job) \<Rightarrow> process_job (proc e) (fold serve (api_calls e) w1) job
      | (w1, None) \<Rightarrow> (emit (Slept poll_interval) w1, None))"

text \<open>Lines 78 to 86: the \<open>try\<close> and its handler.\<close>

definition iteration :: "real \<Rightarrow> iter_env \<Rightarrow> world \<Rightarrow> world" where
  "iteration poll_interval e w =
     (case iteration_try poll_interval e w of
        (w1, None) \<Rightarrow> w1
      | (w1, Some ex) \<Rightarrow>
          emit (Slept poll_interval) (emit (LogError (''Worker error: '' @ str_exn ex)) w1))"

text \<open>
  \<open>TranscriptionWorker._run\<close> over the passes given; the flag says whether the loop
  has ended (\<open>False\<close>: it is still looping when the passes given are used up).
\<close>

fun run_loop :: "real \<Rightarrow> iter_env list \<Rightarrow> world \<Rightarrow> world \<times> bool" where
  "run_loop poll_interval [] w = (w, False)"
| "run_loop poll_interval (e # es) w =
     (if running e then run_loop poll_interval es (iteration poll_interval e w)
      else (emit (LogInfo ''Worker loop ended'') w, True))"

definition run :: "real \<Rightarrow> iter_env list \<Rightarrow> world \<Rightarrow> world \<times> bool" where
  "run poll_interval es w = run_loop poll_interval es (emit (LogInfo ''Worker loop started'') w)"

section \<open>Several callers of the claim\<close>

text \<open>
  \<open>_get_next_job\<close> is two statements against the table: the query of lines 96 to 101
  and the update committed at line 105. A schedule runs them for several callers in a
  given order; each caller keeps the row it has read and the row it has returned.
\<close>

datatype claim_step = Select nat | Update nat

record caller =
  selected :: "job option"
  returned :: "job option"

definition idle :: caller where
  "idle = \<lparr>selected = None, returned = None\<rparr>"

fun do_step :: "datetime \<Rightarrow> claim_step \<Rightarrow> job list \<times> caller list \<Rightarrow> job list \<times> caller list" where
  "do_step now (Select i) (st, cs) =
     (if i < length cs then (st, cs[i := (cs ! i)\<lparr>selected := query_oldest_pending st\<rparr>])
      else (st, cs))"
| "do_step now (Update i) (st, cs) =
     (if i < length cs then
        (case selected (cs ! i) of
           None \<Rightarrow> (st, cs)
         | Some j \<Rightarrow>
            (let st1 = commit_row now (j\<lparr>status := ''processing''\<rparr>) st
             in (st1, cs[i := \<lparr>selected = None, returned = query_by_id st1 (job_id j)\<rparr>])))
      else (st, cs))"

definition schedule :: "datetime \<Rightarrow> claim_step list \<Rightarrow> job list \<times> caller list \<Rightarrow> job list \<times> caller list" where
  "schedule now steps s = fold (do_step now) steps s"

text \<open>The claims of one caller after another: the rows returned, in order.\<close>

fun claim_serially :: "datetime list \<Rightarrow> world \<Rightarrow> job list" where
  "claim_serially [] w = []"
| "claim_serially (n # ns) w =
     (case get_next_job (claim_ok n) w of
        (w1, None) \<Rightarrow> claim_serially ns w1
      | (w1, Some r) \<Rightarrow> r # claim_serially ns w1)"

text \<open>The ids of the rows a claim can take.\<close>

definition pending_ids :: "job list \<Rightarrow> string set" where
  "pending_ids st = set (map job_id (filter (\<lambda>r. status r = ''pending'') st))"

section \<open>Sequences of operations\<close>

text \<open>
  The operations that write the table: a job is created, the worker claims one, the
  worker processes the one it has claimed. The worker is one thread, so it claims only
  when it holds no job and processes only the job it holds.
\<close>

datatype operation = Insert create_args | Claim claim_env | Process proc_env

record system =
  sys_world :: world
  held :: "job option"

fun exec_op :: "operation \<Rightarrow> system \<Rightarrow> system" where
  "exec_op (Insert a) s = s\<lparr>sys_world := fst (create_job a (sys_world s))\<rparr>"
| "exec_op (Claim ce) s =
     (case held s of
        Some j \<Rightarrow> s
      | None \<Rightarrow>
         (case get_next_job ce (sys_world s) of
            (w1, r) \<Rightarrow> \<lparr>sys_world = w1, held = r\<rparr>))"
| "exec_op (Process pe) s =
     (case held s of
        None \<Rightarrow> s
      | Some j \<Rightarrow> \<lparr>sys_world = fst (process_job pe (sys_world s) j), held = None\<rparr>)"

definition start_system :: "string set \<Rightarrow> string set \<Rightarrow> system" where
  "start_system fs lk =
     \<lparr>sys_world = \<lparr>store = [], files = fs, locked = lk, current_job_id = None, trace = []\<rparr>,
      held = None\<rparr>"

definition exec_ops :: "operation list \<Rightarrow> system \<Rightarrow> system" where
  "exec_ops ops s = fold exec_op ops s"

text \<open>The moves of the state machine.\<close>

definition valid_transition :: "string \<Rightarrow> string \<Rightarrow> bool" where
  "valid_transition a b \<longleftrightarrow>
     (a = ''pending'' \<and> b = ''processing'')
     \<or> (a = ''processing'' \<and> b = ''completed'')
     \<or> (a = ''processing'' \<and> b = ''failed'')"

section \<open>Requests to remove an audio file\<close>

fun is_cleanup :: "event \<Rightarrow> bool" where
  "is_cleanup (CleanupCalled p) = True"
| "is_cleanup _ = False"

text \<open>The requests to remove an audio file, in the order they were made.\<close>

definition cleanups :: "world \<Rightarrow> event list" where
  "cleanups w = filter is_cleanup (trace w)"

section \<open>Example jobs and worlds\<close>

definition J3 :: job where
  "J3 = \<lparr>job_id = ''j3'', status = ''pending'', audio_path = ''/up/j3.wav'',
     original_filename = None, transcript = None, error_message = None, model = ''small'',
     language = None, diarize = False, min_speakers = None, max_speakers = None,
     chunk_size = 15, vad_onset = 1/2, vad_offset = 363/1000, duration = JNull,
     processing_time = None, created_at = 10, updated_at = 10, completed_at = None\<rparr>"

definition J4 :: job where
  "J4 = J3\<lparr>job_id := ''j4'', audio_path := ''/up/j4.wav'', created_at := 20, updated_at := 20\<rparr>"

definition W34 :: world where
  "W34 = \<lparr>store = [J4, J3], files = {''/up/j3.wav'', ''/up/j4.wav''}, locked = {},
     current_job_id = None, trace = []\<rparr>"

text \<open>
  Scenario A: the job J1 is created, and the engine answers with the text \<open>hello\<close>.
  Scenario B: the job J2 is created, and the engine raises \<open>engine timeout\<close>.
\<close>

definition args_J1 :: create_args where
  "args_J1 = \<lparr>new_id = ''j1'', new_path = ''/up/j1.wav'', new_filename = Some ''a.wav'',
     new_model = ''small'', new_language = None, new_diarize = False,
     new_min_speakers = Some 2, new_max_speakers = Some 3, new_chunk_size = 15,
     new_vad_onset = 1/2, new_vad_offset = 363/1000, save_fault = None, insert_now = 10\<rparr>"

definition args_J2 :: create_args where
  "args_J2 = args_J1\<lparr>new_id := ''j2'', new_path := ''/up/j2.wav'', insert_now := 11\<rparr>"

definition J1 :: job where
  "J1 = new_job args_J1"

definition J2 :: job where
  "J2 = new_job args_J2"

definition hello_result :: json where
  "hello_result =
     JObj [(''text'', JStr ''hello''),
           (''segments'', JArr [JObj [(''start'', JNum 0), (''end'', JNum 1), (''text'', JStr ''hello'')]]),
           (''language'', JStr ''en''),
           (''duration'', JNum (6/5))]"

definition env_A :: proc_env where
  "env_A = \<lparr>event_loop_fault = None,
     load_model_instance = (\<lambda>m. Inr (''instance of '' @ m)),
     transcribe = (\<lambda>c. Inr hello_result),
     json_dumps = (\<lambda>v. Inr ''serialised transcript''),
     t_start = 100, t_end = 103, t_except = 102, utcnow = 50,
     q1_fault = None, c1_fault = None, now1 = 51, reload1_fault = None,
     reload_handler_fault = None,
     q2_fault = None, c2_fault = None, now2 = 52, reload2_fault = None\<rparr>"

definition env_B :: proc_env where
  "env_B = env_A\<lparr>transcribe := (\<lambda>c. Inl (EngineError ''engine timeout''))\<rparr>"

text \<open>
  Scenario L: as scenario A, but setting up the event loop raises.
  Scenario R: as scenario A, but the read of \<open>job.audio_path\<close> at line 190, after the
  commit, raises. Scenario RH: as scenario R, and the read of \<open>job.id\<close> at line 193
  raises too. Scenario S: as scenario B, but the read of \<open>job.audio_path\<close> at line 205,
  after the handler's commit, raises.
\<close>

definition env_R :: proc_env where
  "env_R = env_A\<lparr>reload1_fault := Some (DBError ''database is locked'')\<rparr>"

definition env_RH :: proc_env where
  "env_RH = env_R\<lparr>reload_handler_fault := Some (DBError ''database is locked'')\<rparr>"


definition env_S :: proc_env where
  "env_S = env_B\<lparr>reload2_fault := Some (DBError ''database is locked'')\<rparr>"

definition start_A :: system where
  "start_A = start_system {} {}"

text \<open>J1, or J2, once claimed, and the rows the scenarios leave in the table.\<close>

definition claimed :: "job \<Rightarrow> job" where
  "claimed j = j\<lparr>status := ''processing'', updated_at := 30\<rparr>"

definition completed_J1 :: job where
  "completed_J1 = J1\<lparr>status := ''completed'', transcript := Some ''serialised transcript'',
     duration := JNum (6/5), processing_time := Some 3, completed_at := Some 50,
     updated_at := 51\<rparr>"

definition overwritten_J1 :: job where
  "overwritten_J1 = completed_J1\<lparr>status := ''failed'',
     error_message := Some ''database is locked'', processing_time := Some 2,
     updated_at := 52\<rparr>"

definition failed_J2 :: job where
  "failed_J2 = J2\<lparr>status := ''failed'', error_message := Some ''engine timeout'',
     processing_time := Some 2, updated_at := 52\<rparr>"

text \<open>The system once J1, or J2, has been created and the worker has claimed it.\<close>

definition claimed_J1 :: system where
  "claimed_J1 = exec_ops [Insert args_J1, Claim (claim_ok 30)] start_A"

definition claimed_J2 :: system where
  "claimed_J2 = exec_ops [Insert args_J2, Claim (claim_ok 30)] start_A"

text \<open>
  Passes of the worker loop. In the first the job claimed is deleted through the API
  before the worker reads it again; in the second nothing happens; at the head of the
  third \<open>stop\<close> has cleared the flag.
\<close>

definition pass_deleted :: iter_env where
  "pass_deleted = \<lparr>running = True, claim = claim_ok 30, proc = env_A, api_calls = [ApiDelete ''j1'']\<rparr>"

definition pass_idle :: iter_env where
  "pass_idle = \<lparr>running = True, claim = claim_ok 31, proc = env_A, api_calls = []\<rparr>"

definition pass_stopped :: iter_env where
  "pass_stopped = \<lparr>running = False, claim = claim_ok 32, proc = env_A, api_calls = []\<rparr>"

definition created_J1 :: world where
  "created_J1 = sys_world (exec_ops [Insert args_J1] start_A)"




lemma sort_key_Nil_iff: "sort_key f xs = [] \<longleftrightarrow> xs = []"
  by (metis length_0_conv length_sort)

lemma first_None_iff: "(case xs of [] \<Rightarrow> None | r # _ \<Rightarrow> Some r) = None \<longleftrightarrow> xs = []"
  by (cases xs) simp_all

lemma query_oldest_pending_None:
  "query_oldest_pending st = None \<longleftrightarrow> (\<forall>r \<in> set st. status r \<noteq> ''pending'')"
  unfolding query_oldest_pending_def first_None_iff sort_key_Nil_iff filter_empty_conv
  by blast

lemma query_oldest_pending_Some:
  assumes "query_oldest_pending st = Some j"
  shows "j \<in> set st \<and> status j = ''pending'' \<and>
         (\<forall>k \<in> set st. status k = ''pending'' \<longrightarrow> created_at j \<le> created_at k)"
proof -
  let ?p = "filter (\<lambda>r. status r = ''pending'') st"
  let ?s = "sort_key created_at ?p"
  from assms obtain rest where s: "?s = j # rest"
    unfolding query_oldest_pending_def by (cases ?s) simp_all
  have "j \<in> set ?s" unfolding s by simp
  then have jp: "j \<in> set ?p" by simp
  have srt: "sorted (map created_at ?s)" by (rule sorted_sort_key)
  have le: "created_at j \<le> created_at k" if "k \<in> set st" "status k = ''pending''" for k
  proof -
    from that have "k \<in> set ?p" by simp
    then have "k \<in> set ?s" by simp
    then have "k = j \<or> k \<in> set rest" unfolding s by simp
    moreover have "\<forall>x \<in> set rest. created_at j \<le> created_at x"
      using srt unfolding s by simp
    ultimately show ?thesis by blast
  qed
  from jp le show ?thesis by simp
qed

lemma find_id_mem:
  "distinct (map job_id st) \<Longrightarrow> r \<in> set st \<Longrightarrow>
   find (\<lambda>x. job_id x = job_id r) st = Some r"
proof (induction st)
  case Nil
  then show ?case by simp
next
  case (Cons a st)
  show ?case
  proof (cases "a = r")
    case True
    then show ?thesis by simp
  next
    case False
    with Cons.prems have r: "r \<in> set st" by simp
    with Cons.prems have "job_id a \<noteq> job_id r" by force
    with Cons r show ?thesis by simp
  qed
qed

lemma commit_row_ids: "map job_id (commit_row now r st) = map job_id st"
  unfolding commit_row_def by (induction st) simp_all

lemma find_id_commit_row:
  "j \<in> set st \<Longrightarrow> job_id r = i \<Longrightarrow> job_id j = i \<Longrightarrow>
   find (\<lambda>x. job_id x = i) (commit_row now r st) = Some (r\<lparr>updated_at := now\<rparr>)"
  unfolding commit_row_def by (induction st) auto

lemma store_emit [simp]: "store (emit e w) = store w"
  and files_emit [simp]: "files (emit e w) = files w"
  and locked_emit [simp]: "locked (emit e w) = locked w"
  and current_emit [simp]: "current_job_id (emit e w) = current_job_id w"
  and trace_emit [simp]: "trace (emit e w) = trace w @ [e]"
  by (simp_all add: emit_def)

lemma get_next_job_none:
  "\<forall>r \<in> set (store w). status r \<noteq> ''pending'' \<Longrightarrow> get_next_job (claim_ok now) w = (w, None)"
  using query_oldest_pending_None [of "store w"]
  by (simp add: get_next_job_def claim_ok_def)

lemma get_next_job_some:
  assumes q: "query_oldest_pending (store w) = Some j"
  shows "get_next_job (claim_ok now) w =
           (emit (LogInfo (''Picked up job: '' @ job_id j))
              (w\<lparr>store := commit_row now (j\<lparr>status := ''processing''\<rparr>) (store w)\<rparr>),
            Some (j\<lparr>status := ''processing'', updated_at := now\<rparr>))"
proof -
  from query_oldest_pending_Some [OF q] have m: "j \<in> set (store w)" by simp
  have f: "query_by_id (commit_row now (j\<lparr>status := ''processing''\<rparr>) (store w)) (job_id j)
           = Some (j\<lparr>status := ''processing'', updated_at := now\<rparr>)"
    unfolding query_by_id_def
    using find_id_commit_row [OF m, of "j\<lparr>status := ''processing''\<rparr>" "job_id j" now]
    by simp
  show ?thesis
    unfolding get_next_job_def by (simp add: q claim_ok_def f)
qed

subsection \<open>Removing the audio file\<close>

lemma cleanup_audio_file_eq:
  "cleanup_audio_file w p =
     Inr (if os_path_exists w p then
            (if p \<in> locked w
             then emit (LogWarning (''Failed to delete audio file '' @ p @ '': '' @ ''Permission denied''))
                    (emit (CleanupCalled p) w)
             else emit (LogInfo (''Deleted audio file: '' @ p))
                    ((emit (CleanupCalled p) w)\<lparr>files := files w - {p}\<rparr>))
          else emit (CleanupCalled p) w)"
  by (simp add: cleanup_audio_file_def cleanup_try_def os_remove_def os_path_exists_def Let_def)

lemma cleanups_emit [simp]:
  "cleanups (emit e w) = (if is_cleanup e then cleanups w @ [e] else cleanups w)"
  by (simp add: cleanups_def)

lemma cleanups_upd [simp]:
  "cleanups (w\<lparr>store := s\<rparr>) = cleanups w"
  "cleanups (w\<lparr>files := f\<rparr>) = cleanups w"
  "cleanups (w\<lparr>current_job_id := c\<rparr>) = cleanups w"
  by (simp_all add: cleanups_def)



section \<open>The scenarios, evaluated\<close>

lemmas scenario_defs =
  claimed_def J1_def J2_def args_J1_def args_J2_def new_job_def env_A_def env_B_def
  env_R_def env_RH_def env_S_def hello_result_def completed_J1_def failed_J2_def
  overwritten_J1_def

lemmas process_defs =
  process_job_def process_try_def process_except_def write_completed_def build_transcript_def
  completed_row_def failed_row_def raised_def update_failed_def transcribe_args_def
  cleanup_audio_file_def cleanup_try_def os_remove_def os_path_exists_def
  commit_row_def query_by_id_def emit_def

lemmas system_defs =
  exec_ops_def start_A_def start_system_def create_job_def get_next_job_def claim_ok_def
  query_oldest_pending_def

lemma claimed_J1_eq:
  "claimed_J1 =
     \<lparr>sys_world = \<lparr>store = [claimed J1], files = {''/up/j1.wav''}, locked = {},
          current_job_id = None,
          trace = [LogInfo ''Saved audio file: /up/j1.wav'', LogInfo ''Created job: j1'',
                   LogInfo ''Picked up job: j1'']\<rparr>,
       held = Some (claimed J1)\<rparr>"
  unfolding claimed_J1_def by (simp add: system_defs scenario_defs process_defs)

lemma claimed_J2_eq:
  "claimed_J2 =
     \<lparr>sys_world = \<lparr>store = [claimed J2], files = {''/up/j2.wav''}, locked = {},
          current_job_id = None,
          trace = [LogInfo ''Saved audio file: /up/j2.wav'', LogInfo ''Created job: j2'',
                   LogInfo ''Picked up job: j2'']\<rparr>,
       held = Some (claimed J2)\<rparr>"
  unfolding claimed_J2_def by (simp add: system_defs scenario_defs process_defs)

lemma scenario_A:
  "exec_op (Process env_A) claimed_J1 =
     \<lparr>sys_world = \<lparr>store = [completed_J1], files = {}, locked = {}, current_job_id = None,
       trace = [LogInfo ''Saved audio file: /up/j1.wav'', LogInfo ''Created job: j1'',
                LogInfo ''Picked up job: j1'',
                LogInfo ''Processing job j1'',
                TranscribeCalled (transcribe_args (claimed J1) ''instance of small''),
                LogInfo ''Job j1 completed successfully'',
                CleanupCalled ''/up/j1.wav'',
                LogInfo ''Deleted audio file: /up/j1.wav'']\<rparr>, held = None\<rparr>"
  unfolding claimed_J1_eq by (simp add: scenario_defs process_defs)

lemma scenario_B:
  "exec_op (Process env_B) claimed_J2 =
     \<lparr>sys_world = \<lparr>store = [failed_J2], files = {}, locked = {}, current_job_id = None,
       trace = [LogInfo ''Saved audio file: /up/j2.wav'', LogInfo ''Created job: j2'',
                LogInfo ''Picked up job: j2'',
                LogInfo ''Processing job j2'',
                TranscribeCalled (transcribe_args (claimed J2) ''instance of small''),
                LogError ''Error processing job j2: engine timeout'',
                CleanupCalled ''/up/j2.wav'',
                LogInfo ''Deleted audio file: /up/j2.wav'']\<rparr>, held = None\<rparr>"
  unfolding claimed_J2_eq by (simp add: scenario_defs process_defs)

lemma scenario_R_try:
  "process_try env_R ((sys_world claimed_J1)\<lparr>current_job_id := Some ''j1''\<rparr>) (claimed J1) =
     \<lparr>te_world = \<lparr>store = [completed_J1], files = {''/up/j1.wav''}, locked = {},
        current_job_id = Some ''j1'',
        trace = [LogInfo ''Saved audio file: /up/j1.wav'', LogInfo ''Created job: j1'',
                 LogInfo ''Picked up job: j1'',
                 LogInfo ''Processing job j1'',
                 TranscribeCalled (transcribe_args (claimed J1) ''instance of small''),
                 LogInfo ''Job j1 completed successfully'']\<rparr>,
      te_job = Some (completed_J1\<lparr>updated_at := 30\<rparr>), te_expired = True,
      te_start = Some 100, te_raised = Some (DBError ''database is locked'')\<rparr>"
  unfolding claimed_J1_eq by (simp add: scenario_defs process_defs)

lemma scenario_R:
  "exec_op (Process env_R) claimed_J1 =
     \<lparr>sys_world = \<lparr>store = [overwritten_J1], files = {}, locked = {}, current_job_id = None,
       trace = [LogInfo ''Saved audio file: /up/j1.wav'', LogInfo ''Created job: j1'',
                LogInfo ''Picked up job: j1'',
                LogInfo ''Processing job j1'',
                TranscribeCalled (transcribe_args (claimed J1) ''instance of small''),
                LogInfo ''Job j1 completed successfully'',
                LogError ''Error processing job j1: database is locked'',
                CleanupCalled ''/up/j1.wav'',
                LogInfo ''Deleted audio file: /up/j1.wav'']\<rparr>, held = None\<rparr>"
  unfolding claimed_J1_eq by (simp add: scenario_defs process_defs)

lemma scenario_RH:
  "process_job env_RH (sys_world claimed_J1) (claimed J1) =
     (\<lparr>store = [completed_J1], files = {''/up/j1.wav''}, locked = {}, current_job_id = None,
       trace = [LogInfo ''Saved audio file: /up/j1.wav'', LogInfo ''Created job: j1'',
                LogInfo ''Picked up job: j1'',
                LogInfo ''Processing job j1'',
                TranscribeCalled (transcribe_args (claimed J1) ''instance of small''),
                LogInfo ''Job j1 completed successfully'']\<rparr>,
      Some (DBError ''database is locked''))"
  unfolding claimed_J1_eq by (simp add: scenario_defs process_defs)

lemma scenario_S:
  "exec_op (Process env_S) claimed_J2 =
     \<lparr>sys_world = \<lparr>store = [failed_J2], files = {''/up/j2.wav''}, locked = {},
       current_job_id = None,
       trace = [LogInfo ''Saved audio file: /up/j2.wav'', LogInfo ''Created job: j2'',
                LogInfo ''Picked up job: j2'',
                LogInfo ''Processing job j2'',
                TranscribeCalled (transcribe_args (claimed J2) ''instance of small''),
                LogError ''Error processing job j2: engine timeout'',
                LogError ''Error updating failed job: database is locked'']\<rparr>, held = None\<rparr>"
  unfolding claimed_J2_eq by (simp add: scenario_defs process_defs)

section \<open>Claiming the oldest pending job\<close>

lemma W34_distinct: "distinct (map job_id (store W34))"
  by (simp add: W34_def J3_def J4_def)

lemma W34_oldest: "query_oldest_pending (store W34) = Some J3"
  by (simp add: query_oldest_pending_def W34_def J3_def J4_def)

text \<open>
  C1. With the primary key unique and the database answering, \<open>_get_next_job\<close> picks
  among the rows whose status is \<open>pending\<close> one of least \<open>created_at\<close>, writes it
  back with status \<open>processing\<close> (no other row changes) and returns the row it wrote;
  with no pending row it returns nothing and leaves the world as it was. So with two
  pending rows, the one created later is not the one claimed, and the row claimed is no
  younger than the older one.
\<close>

theorem claim_oldest_pending:
  assumes d: "distinct (map job_id (store w))"
  shows
    "((\<forall>r \<in> set (store w). status r \<noteq> ''pending'') \<longrightarrow>
        get_next_job (claim_ok now) w = (w, None))
     \<and> ((\<exists>r \<in> set (store w). status r = ''pending'') \<longrightarrow>
        (\<exists>j \<in> set (store w).
           status j = ''pending''
           \<and> (\<forall>k \<in> set (store w). status k = ''pending'' \<longrightarrow> created_at j \<le> created_at k)
           \<and> snd (get_next_job (claim_ok now) w) = Some (j\<lparr>status := ''processing'', updated_at := now\<rparr>)
           \<and> store (fst (get_next_job (claim_ok now) w)) =
               map (\<lambda>x. if job_id x = job_id j then j\<lparr>status := ''processing'', updated_at := now\<rparr> else x)
                 (store w)))
     \<and> (\<forall>j3 \<in> set (store w). \<forall>j4 \<in> set (store w).
          status j3 = ''pending'' \<and> status j4 = ''pending'' \<and> created_at j3 < created_at j4 \<longrightarrow>
          (\<exists>r. snd (get_next_job (claim_ok now) w) = Some r \<and> job_id r \<noteq> job_id j4
               \<and> created_at r \<le> created_at j3))"
proof (intro conjI impI ballI)
  assume "\<forall>r \<in> set (store w). status r \<noteq> ''pending''"
  then show "get_next_job (claim_ok now) w = (w, None)" by (rule get_next_job_none)
next
  assume "\<exists>r \<in> set (store w). status r = ''pending''"
  then have "query_oldest_pending (store w) \<noteq> None"
    using query_oldest_pending_None [of "store w"] by blast
  then obtain j where q: "query_oldest_pending (store w) = Some j" by blast
  note p = query_oldest_pending_Some [OF q]
  have "status j = ''pending''
        \<and> (\<forall>k \<in> set (store w). status k = ''pending'' \<longrightarrow> created_at j \<le> created_at k)
        \<and> snd (get_next_job (claim_ok now) w) = Some (j\<lparr>status := ''processing'', updated_at := now\<rparr>)
        \<and> store (fst (get_next_job (claim_ok now) w)) =
            map (\<lambda>x. if job_id x = job_id j then j\<lparr>status := ''processing'', updated_at := now\<rparr> else x)
              (store w)"
    using p by (simp add: get_next_job_some [OF q] commit_row_def)
  with p show "\<exists>j \<in> set (store w).
           status j = ''pending''
           \<and> (\<forall>k \<in> set (store w). status k = ''pending'' \<longrightarrow> created_at j \<le> created_at k)
           \<and> snd (get_next_job (claim_ok now) w) = Some (j\<lparr>status := ''processing'', updated_at := now\<rparr>)
           \<and> store (fst (get_next_job (claim_ok now) w)) =
               map (\<lambda>x. if job_id x = job_id j then j\<lparr>status := ''processing'', updated_at := now\<rparr> else x)
                 (store w)" by blast
next
  fix j3 j4
  assume m3: "j3 \<in> set (store w)" and m4: "j4 \<in> set (store w)"
    and h: "status j3 = ''pending'' \<and> status j4 = ''pending'' \<and> created_at j3 < created_at j4"
  from m3 h have "query_oldest_pending (store w) \<noteq> None"
    using query_oldest_pending_None [of "store w"] by blast
  then obtain j where q: "query_oldest_pending (store w) = Some j" by blast
  note p = query_oldest_pending_Some [OF q]
  from p m3 h have le: "created_at j \<le> created_at j3" by blast
  with h have "j \<noteq> j4" by auto
  with d p m4 have ne: "job_id j \<noteq> job_id j4"
    by (meson distinct_map inj_on_def)
  show "\<exists>r. snd (get_next_job (claim_ok now) w) = Some r \<and> job_id r \<noteq> job_id j4
               \<and> created_at r \<le> created_at j3"
    using ne le by (simp add: get_next_job_some [OF q])
qed

theorem claim_oldest_pending_witness:
  "distinct (map job_id (store W34)) \<and> J3 \<in> set (store W34) \<and> J4 \<in> set (store W34)
   \<and> status J3 = ''pending'' \<and> status J4 = ''pending'' \<and> created_at J3 < created_at J4
   \<and> (\<exists>r. snd (get_next_job (claim_ok 30) W34) = Some r \<and> job_id r \<noteq> job_id J4
          \<and> created_at r \<le> created_at J3)
   \<and> snd (get_next_job (claim_ok 30) W34) = Some (J3\<lparr>status := ''processing'', updated_at := 30\<rparr>)"
proof -
  have m3: "J3 \<in> set (store W34)" and m4: "J4 \<in> set (store W34)" by (simp_all add: W34_def)
  have h: "status J3 = ''pending'' \<and> status J4 = ''pending'' \<and> created_at J3 < created_at J4"
    by (simp add: J3_def J4_def)
  from claim_oldest_pending [OF W34_distinct, of 30] m3 m4 h
  have "\<exists>r. snd (get_next_job (claim_ok 30) W34) = Some r \<and> job_id r \<noteq> job_id J4
          \<and> created_at r \<le> created_at J3" by blast
  moreover have "snd (get_next_job (claim_ok 30) W34) = Some (J3\<lparr>status := ''processing'', updated_at := 30\<rparr>)"
    by (simp add: get_next_job_some [OF W34_oldest])
  ultimately show ?thesis using W34_distinct m3 m4 h by blast
qed

section \<open>The state machine\<close>

text \<open>
  C2. The status of a job does not only move from \<open>pending\<close> to \<open>processing\<close> and
  from there to \<open>completed\<close> or to \<open>failed\<close>. In scenario R the job J1 is created and
  claimed; the worker commits it as \<open>completed\<close> (the table holds that row when the
  \<open>try\<close> block is left), the read of \<open>job.audio_path\<close> that follows the commit
  raises, and the handler commits the same row as \<open>failed\<close>: a move out of a terminal
  state, which is none of the three moves of the state machine.
\<close>

theorem completed_job_is_written_failed:
  "held claimed_J1 = Some (claimed J1)
   \<and> store (sys_world claimed_J1) = [claimed J1]
   \<and> store (te_world (process_try env_R
        ((sys_world claimed_J1)\<lparr>current_job_id := Some (job_id (claimed J1))\<rparr>) (claimed J1)))
       = [completed_J1]
   \<and> te_raised (process_try env_R
        ((sys_world claimed_J1)\<lparr>current_job_id := Some (job_id (claimed J1))\<rparr>) (claimed J1))
       = Some (DBError ''database is locked'')
   \<and> store (sys_world (exec_op (Process env_R) claimed_J1)) = [overwritten_J1]
   \<and> job_id (claimed J1) = ''j1'' \<and> job_id completed_J1 = ''j1'' \<and> job_id overwritten_J1 = ''j1''
   \<and> status (claimed J1) = ''processing''
   \<and> status completed_J1 = ''completed''
   \<and> status overwritten_J1 = ''failed''
   \<and> \<not> valid_transition (status completed_J1) (status overwritten_J1)"
proof -
  have i: "job_id (claimed J1) = ''j1''"
    by (simp add: scenario_defs)
  have "held claimed_J1 = Some (claimed J1)" "store (sys_world claimed_J1) = [claimed J1]"
    unfolding claimed_J1_eq by simp_all
  moreover have "store (te_world (process_try env_R
        ((sys_world claimed_J1)\<lparr>current_job_id := Some (job_id (claimed J1))\<rparr>) (claimed J1)))
       = [completed_J1]"
    "te_raised (process_try env_R
        ((sys_world claimed_J1)\<lparr>current_job_id := Some (job_id (claimed J1))\<rparr>) (claimed J1))
       = Some (DBError ''database is locked'')"
    unfolding i scenario_R_try by simp_all
  moreover have "store (sys_world (exec_op (Process env_R) claimed_J1)) = [overwritten_J1]"
    unfolding scenario_R by simp
  moreover have "job_id completed_J1 = ''j1''" "job_id overwritten_J1 = ''j1''"
    "status (claimed J1) = ''processing''" "status completed_J1 = ''completed''"
    "status overwritten_J1 = ''failed''"
    by (simp_all add: scenario_defs)
  moreover have "\<not> valid_transition (status completed_J1) (status overwritten_J1)"
    by (simp add: scenario_defs valid_transition_def)
  ultimately show ?thesis using i by simp
qed

section \<open>Transcript and error message\<close>

text \<open>
  C3. A row can be \<open>failed\<close> and have a transcript. Scenario R, from the empty table:
  J1 is created, claimed and processed, and the read of \<open>job.audio_path\<close> after the
  commit of the result raises. The one row of the table then has status \<open>failed\<close>, the
  transcript written with the result, and the error message written by the handler.
\<close>

theorem failed_job_has_transcript:
  "store (sys_world (exec_ops [Insert args_J1, Claim (claim_ok 30), Process env_R] start_A))
     = [overwritten_J1]
   \<and> status overwritten_J1 = ''failed''
   \<and> transcript overwritten_J1 = Some ''serialised transcript''
   \<and> error_message overwritten_J1 = Some ''database is locked''"
proof -
  have "exec_ops [Insert args_J1, Claim (claim_ok 30), Process env_R] start_A =
        exec_op (Process env_R) claimed_J1"
    by (simp add: exec_ops_def claimed_J1_def)
  then have "store (sys_world (exec_ops [Insert args_J1, Claim (claim_ok 30), Process env_R] start_A))
     = [overwritten_J1]"
    unfolding scenario_R by simp
  moreover have "status overwritten_J1 = ''failed''"
    "transcript overwritten_J1 = Some ''serialised transcript''"
    "error_message overwritten_J1 = Some ''database is locked''"
    by (simp_all add: scenario_defs)
  ultimately show ?thesis by simp
qed

section \<open>The arguments of the engine\<close>

text \<open>
  C5. The call of \<open>transcriber.transcribe\<close> does not receive \<open>min_speakers\<close>,
  \<open>max_speakers\<close>, \<open>vad_onset\<close> and \<open>vad_offset\<close>: whatever these four fields of
  the job are, the arguments of the call are the same. It receives the audio path,
  \<open>chunk_size\<close>, \<open>language\<close>, \<open>diarize\<close> and the job's id, and the instance loaded
  for \<open>model\<close>. In scenario A the job asks for 2 to 3 speakers and the call, the only one
  made, is the one shown.
\<close>

theorem transcribe_ignores_speakers_and_vad:
  "transcribe_args (j\<lparr>min_speakers := a, max_speakers := b, vad_onset := c, vad_offset := d\<rparr>) m
     = transcribe_args j m
   \<and> arg_chunk_size (transcribe_args j m) = chunk_size j
   \<and> arg_language (transcribe_args j m) = language j
   \<and> arg_diarize (transcribe_args j m) = diarize j
   \<and> arg_whispermodel (transcribe_args j m) = m
   \<and> min_speakers (claimed J1) = Some 2 \<and> max_speakers (claimed J1) = Some 3
   \<and> filter (\<lambda>ev. case ev of TranscribeCalled c \<Rightarrow> True | _ \<Rightarrow> False)
        (trace (sys_world (exec_op (Process env_A) claimed_J1)))
      = [TranscribeCalled
           \<lparr>arg_audio_file = ''/up/j1.wav'', arg_batch_size = 16, arg_chunk_size = 15,
            arg_asr_options = [], arg_language = None, arg_whispermodel = ''instance of small'',
            arg_align = True, arg_diarize = False, arg_request_id = ''j1'',
            arg_task = ''transcribe''\<rparr>]"
proof -
  have "filter (\<lambda>ev. case ev of TranscribeCalled c \<Rightarrow> True | _ \<Rightarrow> False)
        (trace (sys_world (exec_op (Process env_A) claimed_J1)))
      = [TranscribeCalled
           \<lparr>arg_audio_file = ''/up/j1.wav'', arg_batch_size = 16, arg_chunk_size = 15,
            arg_asr_options = [], arg_language = None, arg_whispermodel = ''instance of small'',
            arg_align = True, arg_diarize = False, arg_request_id = ''j1'',
            arg_task = ''transcribe''\<rparr>]"
    unfolding scenario_A by (simp add: scenario_defs transcribe_args_def)
  moreover have "min_speakers (claimed J1) = Some 2" "max_speakers (claimed J1) = Some 3"
    by (simp_all add: scenario_defs)
  ultimately show ?thesis by (simp add: transcribe_args_def)
qed

section \<open>Removing the audio file of a finished job\<close>

text \<open>
  C6. A job can reach a terminal state without the removal of its audio file being
  requested. Scenario S: J2 is created, claimed and processed, the engine raises, the
  handler commits the row as \<open>failed\<close>, and the read of \<open>job.audio_path\<close> that
  follows the commit raises: \<open>_cleanup_audio_file\<close> is not called and the file stays.
  Scenario RH: J1 is committed as \<open>completed\<close>, the read of \<open>job.audio_path\<close> after
  the commit raises, and so does the read of \<open>job.id\<close> in the handler: again no call,
  and the file stays. (In scenarios A and B, where no read raises, the removal is
  requested once and the file is gone.)
\<close>

theorem cleanup_not_requested_when_reload_raises:
  "store (sys_world (exec_op (Process env_S) claimed_J2)) = [failed_J2]
   \<and> status failed_J2 = ''failed''
   \<and> cleanups (sys_world (exec_op (Process env_S) claimed_J2)) = []
   \<and> audio_path failed_J2 \<in> files (sys_world (exec_op (Process env_S) claimed_J2))
   \<and> store (fst (process_job env_RH (sys_world claimed_J1) (claimed J1))) = [completed_J1]
   \<and> status completed_J1 = ''completed''
   \<and> cleanups (fst (process_job env_RH (sys_world claimed_J1) (claimed J1))) = []
   \<and> audio_path completed_J1 \<in> files (fst (process_job env_RH (sys_world claimed_J1) (claimed J1)))
   \<and> cleanups (sys_world (exec_op (Process env_A) claimed_J1)) = [CleanupCalled ''/up/j1.wav'']
   \<and> files (sys_world (exec_op (Process env_A) claimed_J1)) = {}
   \<and> cleanups (sys_world (exec_op (Process env_B) claimed_J2)) = [CleanupCalled ''/up/j2.wav'']
   \<and> files (sys_world (exec_op (Process env_B) claimed_J2)) = {}"
proof -
  have "store (sys_world (exec_op (Process env_S) claimed_J2)) = [failed_J2]"
    "cleanups (sys_world (exec_op (Process env_S) claimed_J2)) = []"
    "audio_path failed_J2 \<in> files (sys_world (exec_op (Process env_S) claimed_J2))"
    unfolding scenario_S by (simp_all add: cleanups_def scenario_defs)
  moreover have "store (fst (process_job env_RH (sys_world claimed_J1) (claimed J1))) = [completed_J1]"
    "cleanups (fst (process_job env_RH (sys_world claimed_J1) (claimed J1))) = []"
    "audio_path completed_J1 \<in> files (fst (process_job env_RH (sys_world claimed_J1) (claimed J1)))"
    unfolding scenario_RH by (simp_all add: cleanups_def scenario_defs)
  moreover have "cleanups (sys_world (exec_op (Process env_A) claimed_J1)) = [CleanupCalled ''/up/j1.wav'']"
    "files (sys_world (exec_op (Process env_A) claimed_J1)) = {}"
    unfolding scenario_A by (simp_all add: cleanups_def)
  moreover have "cleanups (sys_world (exec_op (Process env_B) claimed_J2)) = [CleanupCalled ''/up/j2.wav'']"
    "files (sys_world (exec_op (Process env_B) claimed_J2)) = {}"
    unfolding scenario_B by (simp_all add: cleanups_def)
  moreover have "status failed_J2 = ''failed''" "status completed_J1 = ''completed''"
    by (simp_all add: scenario_defs)
  ultimately show ?thesis by simp
qed

section \<open>The fields of a failed job\<close>






section \<open>Claims one after another, and claims interleaved\<close>

lemma pending_ids_commit_row:
  "status new \<noteq> ''pending'' \<Longrightarrow>
   pending_ids (commit_row n new st) = pending_ids st - {job_id new}"
proof (induction st)
  case Nil
  then show ?case by (simp add: pending_ids_def commit_row_def)
next
  case (Cons a st)
  from Cons have ih: "pending_ids (commit_row n new st) = pending_ids st - {job_id new}"
    by simp
  have c: "commit_row n new (a # st) =
             (if job_id a = job_id new then new\<lparr>updated_at := n\<rparr> else a) # commit_row n new st"
    by (simp add: commit_row_def)
  show ?case
  proof (cases "job_id a = job_id new")
    case True
    have "pending_ids (commit_row n new (a # st)) = pending_ids (commit_row n new st)"
      unfolding c using True Cons.prems by (simp add: pending_ids_def)
    moreover have "pending_ids (a # st) - {job_id new} = pending_ids st - {job_id new}"
      using True by (simp add: pending_ids_def)
    ultimately show ?thesis using ih by simp
  next
    case False
    have "pending_ids (commit_row n new (a # st)) =
            (if status a = ''pending'' then insert (job_id a) (pending_ids (commit_row n new st))
             else pending_ids (commit_row n new st))"
      unfolding c using False by (simp add: pending_ids_def)
    moreover have "pending_ids (a # st) =
            (if status a = ''pending'' then insert (job_id a) (pending_ids st) else pending_ids st)"
      by (simp add: pending_ids_def)
    ultimately show ?thesis using ih False by auto
  qed
qed

lemma pending_ids_empty:
  "pending_ids st = {} \<longleftrightarrow> (\<forall>r \<in> set st. status r \<noteq> ''pending'')"
  by (auto simp: pending_ids_def filter_empty_conv)

lemma claim_serially_none:
  "pending_ids (store w) = {} \<Longrightarrow> claim_serially ns w = []"
proof (induction ns)
  case Nil
  then show ?case by simp
next
  case (Cons n ns)
  from Cons.prems have "\<forall>r \<in> set (store w). status r \<noteq> ''pending''"
    by (simp add: pending_ids_empty)
  from get_next_job_none [OF this] Cons show ?case by simp
qed

lemma finite_pending_ids [simp]: "finite (pending_ids st)"
  by (simp add: pending_ids_def)

lemma claim_serially_facts:
  "distinct (map job_id (claim_serially ns w))
   \<and> set (map job_id (claim_serially ns w)) \<subseteq> pending_ids (store w)
   \<and> (\<forall>r \<in> set (claim_serially ns w). status r = ''processing'')
   \<and> length (claim_serially ns w) = min (length ns) (card (pending_ids (store w)))"
proof (induction ns arbitrary: w)
  case Nil
  show ?case by simp
next
  case (Cons n ns)
  show ?case
  proof (cases "query_oldest_pending (store w)")
    case None
    then have "\<forall>r \<in> set (store w). status r \<noteq> ''pending''"
      by (simp add: query_oldest_pending_None)
    then have e: "pending_ids (store w) = {}"
      by (simp add: pending_ids_empty)
    from claim_serially_none [OF e] e show ?thesis by simp
  next
    case (Some j)
    let ?r = "j\<lparr>status := ''processing'', updated_at := n\<rparr>"
    let ?w1 = "emit (LogInfo (''Picked up job: '' @ job_id j))
                 (w\<lparr>store := commit_row n (j\<lparr>status := ''processing''\<rparr>) (store w)\<rparr>)"
    from query_oldest_pending_Some [OF Some]
    have m: "j \<in> set (store w)" and p: "status j = ''pending''" by simp_all
    then have "j \<in> set (filter (\<lambda>r. status r = ''pending'') (store w))"
      by simp
    then have "job_id j \<in> job_id ` set (filter (\<lambda>r. status r = ''pending'') (store w))"
      by (rule imageI)
    then have jin: "job_id j \<in> pending_ids (store w)"
      unfolding pending_ids_def by simp
    have g: "get_next_job (claim_ok n) w = (?w1, Some ?r)"
      by (rule get_next_job_some [OF Some])
    have cs: "claim_serially (n # ns) w = ?r # claim_serially ns ?w1"
      using g by simp
    have pn: "pending_ids (store ?w1) = pending_ids (store w) - {job_id j}"
      using pending_ids_commit_row [of "j\<lparr>status := ''processing''\<rparr>" n "store w"]
      by simp
    note ih = Cons.IH [of ?w1]
    have d: "distinct (map job_id (claim_serially ns ?w1))"
      by (rule ih [THEN conjunct1])
    have sub: "set (map job_id (claim_serially ns ?w1)) \<subseteq> pending_ids (store ?w1)"
      by (rule ih [THEN conjunct2, THEN conjunct1])
    have stt: "\<forall>r \<in> set (claim_serially ns ?w1). status r = ''processing''"
      by (rule ih [THEN conjunct2, THEN conjunct2, THEN conjunct1])
    have len: "length (claim_serially ns ?w1) = min (length ns) (card (pending_ids (store ?w1)))"
      by (rule ih [THEN conjunct2, THEN conjunct2, THEN conjunct2])
    from sub pn have notin: "job_id j \<notin> set (map job_id (claim_serially ns ?w1))"
      by blast
    from sub pn have sub': "set (map job_id (claim_serially ns ?w1)) \<subseteq> pending_ids (store w)"
      by blast
    have c1: "distinct (map job_id (claim_serially (n # ns) w))"
      unfolding cs using d notin by simp
    have c2: "set (map job_id (claim_serially (n # ns) w)) \<subseteq> pending_ids (store w)"
      unfolding cs using sub' jin by simp
    have c3: "\<forall>r \<in> set (claim_serially (n # ns) w). status r = ''processing''"
      unfolding cs using stt by simp
    have "card (pending_ids (store w)) = Suc (card (pending_ids (store w) - {job_id j}))"
      by (rule card.remove [OF finite_pending_ids jin])
    then have c4: "length (claim_serially (n # ns) w)
                    = min (length (n # ns)) (card (pending_ids (store w)))"
      unfolding cs using len pn by simp
    show ?thesis by (intro conjI c1 c2 c3 c4)
  qed
qed

text \<open>
  C7, as the code has it. \<open>_get_next_job\<close> reads the oldest pending row and then
  writes it back as \<open>processing\<close>, by its primary key and whatever its status is by
  then. When the claims are made one after another, as the one worker thread makes
  them, no row is returned twice: the rows returned have different ids, each was
  pending before the first claim and is \<open>processing\<close> when returned, and as many rows
  are returned as there are claims, or pending ids if these are fewer.
\<close>

theorem serial_claims_return_different_rows:
  "distinct (map job_id (claim_serially ns w))
   \<and> set (map job_id (claim_serially ns w)) \<subseteq> pending_ids (store w)
   \<and> (\<forall>r \<in> set (claim_serially ns w). status r = ''processing'')
   \<and> length (claim_serially ns w) = min (length ns) (card (pending_ids (store w)))"
  by (rule claim_serially_facts)

theorem serial_claims_return_different_rows_witness:
  "claim_serially [30, 31, 32] W34 =
     [J3\<lparr>status := ''processing'', updated_at := 30\<rparr>,
      J4\<lparr>status := ''processing'', updated_at := 31\<rparr>]
   \<and> pending_ids (store W34) = {''j3'', ''j4''}
   \<and> distinct (map job_id (claim_serially [30, 31, 32] W34))
   \<and> length (claim_serially [30, 31, 32] W34) = 2"
proof -
  have a: "claim_serially [30, 31, 32] W34 =
     [J3\<lparr>status := ''processing'', updated_at := 30\<rparr>,
      J4\<lparr>status := ''processing'', updated_at := 31\<rparr>]"
    by (simp add: W34_def J3_def J4_def get_next_job_def claim_ok_def query_oldest_pending_def
          commit_row_def query_by_id_def emit_def)
  have b: "pending_ids (store W34) = {''j3'', ''j4''}"
    by (auto simp: W34_def J3_def J4_def pending_ids_def)
  note t = serial_claims_return_different_rows [of "[30, 31, 32]" W34]
  from t have c: "distinct (map job_id (claim_serially [30, 31, 32] W34))"
    by blast
  from t have "length (claim_serially [30, 31, 32] W34)
                 = min (length [30, 31, 32 :: int]) (card (pending_ids (store W34)))"
    by blast
  then have d: "length (claim_serially [30, 31, 32] W34) = 2"
    unfolding b by simp
  show ?thesis by (intro conjI a b c d)
qed

text \<open>
  C7 as stated fails. Two callers, one pending row J3: both read the table before
  either writes, and then each writes the row back as \<open>processing\<close>. Both return J3.
\<close>

theorem interleaved_claims_return_same_row:
  "schedule 30 [Select 0, Select 1, Update 0, Update 1] ([J3], [idle, idle]) =
     ([J3\<lparr>status := ''processing'', updated_at := 30\<rparr>],
      [\<lparr>selected = None, returned = Some (J3\<lparr>status := ''processing'', updated_at := 30\<rparr>)\<rparr>,
       \<lparr>selected = None, returned = Some (J3\<lparr>status := ''processing'', updated_at := 30\<rparr>)\<rparr>])
   \<and> pending_ids [J3] = {''j3''}"
  by (simp add: schedule_def idle_def J3_def query_oldest_pending_def commit_row_def
        query_by_id_def pending_ids_def)

section \<open>Removing the audio file never raises\<close>

lemma write_completed_table:
  assumes "store w' = store w"
  shows "te_raised (write_completed env w' j res) = te_raised (write_completed env w j res)
     \<and> te_job (write_completed env w' j res) = te_job (write_completed env w j res)
     \<and> te_expired (write_completed env w' j res) = te_expired (write_completed env w j res)
     \<and> te_start (write_completed env w' j res) = te_start (write_completed env w j res)
     \<and> store (te_world (write_completed env w' j res)) = store (te_world (write_completed env w j res))"
  using assms
  by (simp add: write_completed_def raised_def cleanup_audio_file_eq Let_def
           split: option.split sum.split prod.split)

lemma process_try_table:
  assumes "store w' = store w"
  shows "te_raised (process_try env w' j) = te_raised (process_try env w j)
     \<and> te_job (process_try env w' j) = te_job (process_try env w j)
     \<and> te_expired (process_try env w' j) = te_expired (process_try env w j)
     \<and> te_start (process_try env w' j) = te_start (process_try env w j)
     \<and> store (te_world (process_try env w' j)) = store (te_world (process_try env w j))"
proof -
  have "\<And>a b. store (emit a (emit b w')) = store (emit a (emit b w))"
    using assms by simp
  from write_completed_table [OF this] show ?thesis
    using assms
    by (simp add: process_try_def raised_def Let_def split: option.split sum.split)
qed

lemma process_except_table:
  assumes "store w' = store w"
  shows "store (fst (process_except env w' jb ex st e)) = store (fst (process_except env w jb ex st e))
     \<and> snd (process_except env w' jb ex st e) = snd (process_except env w jb ex st e)"
  using assms
  by (simp add: process_except_def update_failed_def cleanup_audio_file_eq Let_def
           split: option.split sum.split)

lemma process_job_table:
  assumes "store w' = store w"
  shows "store (fst (process_job env w' j)) = store (fst (process_job env w j))
     \<and> snd (process_job env w' j) = snd (process_job env w j)"
proof -
  let ?t' = "process_try env (w'\<lparr>current_job_id := Some (job_id j)\<rparr>) j"
  let ?t = "process_try env (w\<lparr>current_job_id := Some (job_id j)\<rparr>) j"
  have "store (w'\<lparr>current_job_id := Some (job_id j)\<rparr>) = store (w\<lparr>current_job_id := Some (job_id j)\<rparr>)"
    using assms by simp
  from process_try_table [OF this, of env j]
  have r: "te_raised ?t' = te_raised ?t" and jb: "te_job ?t' = te_job ?t"
    and ex: "te_expired ?t' = te_expired ?t" and st: "te_start ?t' = te_start ?t"
    and s: "store (te_world ?t') = store (te_world ?t)"
    by blast+
  show ?thesis
  proof (cases "te_raised ?t")
    case None
    with r s show ?thesis by (simp add: process_job_def Let_def split: prod.split)
  next
    case (Some e)
    from process_except_table [OF s, of env "te_job ?t" "te_expired ?t" "te_start ?t" e]
    show ?thesis using Some r jb ex st
      by (simp add: process_job_def Let_def split: prod.split) (metis fst_conv snd_conv)
  qed
qed

text \<open>
  C8. \<open>_cleanup_audio_file\<close> always returns, and leaves the table as it was. When
  the path does not exist it does nothing (the world changes only by the record of the
  call). Whatever exception the body of its \<open>try\<close> raises, it returns after logging
  one warning; the removal of a file that cannot be removed raises such an exception.
  And \<open>_process_job\<close> depends on the world only through the table: started from two
  worlds with the same table, whatever files exist and whichever removals fail, it
  leaves the same table and lets the same exception through, if any.
\<close>

theorem cleanup_failure_is_swallowed:
  "(\<exists>w'. cleanup_audio_file w p = Inr w' \<and> store w' = store w)
   \<and> (\<not> os_path_exists w p \<longrightarrow> cleanup_audio_file w p = Inr (emit (CleanupCalled p) w))
   \<and> (cleanup_try (emit (CleanupCalled p) w) p = Inl e \<longrightarrow>
        cleanup_audio_file w p =
          Inr (emit (LogWarning (''Failed to delete audio file '' @ p @ '': '' @ str_exn e))
                 (emit (CleanupCalled p) w)))
   \<and> (os_path_exists w p \<and> p \<in> locked w \<longrightarrow>
        cleanup_try (emit (CleanupCalled p) w) p = Inl (OSError ''Permission denied''))
   \<and> (store v = store w \<longrightarrow>
        store (fst (process_job env v j)) = store (fst (process_job env w j))
        \<and> snd (process_job env v j) = snd (process_job env w j))"
proof (intro conjI impI)
  show "\<exists>w'. cleanup_audio_file w p = Inr w' \<and> store w' = store w"
    by (simp add: cleanup_audio_file_eq)
  show "cleanup_audio_file w p = Inr (emit (CleanupCalled p) w)" if "\<not> os_path_exists w p"
    using that by (simp add: cleanup_audio_file_eq)
  show "cleanup_audio_file w p =
          Inr (emit (LogWarning (''Failed to delete audio file '' @ p @ '': '' @ str_exn e))
                 (emit (CleanupCalled p) w))"
    if "cleanup_try (emit (CleanupCalled p) w) p = Inl e"
    using that by (simp add: cleanup_audio_file_def Let_def)
  show "cleanup_try (emit (CleanupCalled p) w) p = Inl (OSError ''Permission denied'')"
    if "os_path_exists w p \<and> p \<in> locked w"
    using that by (simp add: cleanup_try_def os_remove_def os_path_exists_def)
  show "store (fst (process_job env v j)) = store (fst (process_job env w j))"
    if "store v = store w"
    using process_job_table [OF that] by blast
  show "snd (process_job env v j) = snd (process_job env w j)"
    if "store v = store w"
    using process_job_table [OF that] by blast
qed

theorem cleanup_failure_is_swallowed_witness:
  "\<not> os_path_exists (sys_world claimed_J1) ''/up/gone.wav''
   \<and> cleanup_audio_file (sys_world claimed_J1) ''/up/gone.wav''
       = Inr (emit (CleanupCalled ''/up/gone.wav'') (sys_world claimed_J1))
   \<and> os_path_exists ((sys_world claimed_J1)\<lparr>locked := {''/up/j1.wav''}\<rparr>) ''/up/j1.wav''
   \<and> ''/up/j1.wav'' \<in> locked ((sys_world claimed_J1)\<lparr>locked := {''/up/j1.wav''}\<rparr>)
   \<and> cleanup_audio_file ((sys_world claimed_J1)\<lparr>locked := {''/up/j1.wav''}\<rparr>) ''/up/j1.wav''
       = Inr (emit (LogWarning ''Failed to delete audio file /up/j1.wav: Permission denied'')
                (emit (CleanupCalled ''/up/j1.wav'')
                   ((sys_world claimed_J1)\<lparr>locked := {''/up/j1.wav''}\<rparr>)))
   \<and> store ((sys_world claimed_J1)\<lparr>locked := {''/up/j1.wav''}\<rparr>) = store (sys_world claimed_J1)
   \<and> store (fst (process_job env_A ((sys_world claimed_J1)\<lparr>locked := {''/up/j1.wav''}\<rparr>)
                     (claimed J1))) = [completed_J1]
   \<and> snd (process_job env_A ((sys_world claimed_J1)\<lparr>locked := {''/up/j1.wav''}\<rparr>)
                     (claimed J1)) = None
   \<and> files (fst (process_job env_A ((sys_world claimed_J1)\<lparr>locked := {''/up/j1.wav''}\<rparr>)
                     (claimed J1))) = {''/up/j1.wav''}"
proof -
  let ?L = "(sys_world claimed_J1)\<lparr>locked := {''/up/j1.wav''}\<rparr>"
  have n: "\<not> os_path_exists (sys_world claimed_J1) ''/up/gone.wav''"
    unfolding claimed_J1_eq by (simp add: os_path_exists_def)
  have x: "os_path_exists ?L ''/up/j1.wav''" "''/up/j1.wav'' \<in> locked ?L"
    unfolding claimed_J1_eq by (simp_all add: os_path_exists_def)
  have s: "store ?L = store (sys_world claimed_J1)"
    by simp
  have pa: "process_job env_A (sys_world claimed_J1) (claimed J1)
            = (sys_world (exec_op (Process env_A) claimed_J1), None)"
    unfolding scenario_A unfolding claimed_J1_eq by (simp add: scenario_defs process_defs)
  note t1 = cleanup_failure_is_swallowed [of "sys_world claimed_J1" "''/up/gone.wav''"]
  from t1 n have a: "cleanup_audio_file (sys_world claimed_J1) ''/up/gone.wav''
       = Inr (emit (CleanupCalled ''/up/gone.wav'') (sys_world claimed_J1))"
    by blast
  note t2 = cleanup_failure_is_swallowed
    [of ?L "''/up/j1.wav''" "OSError ''Permission denied''" "?L" env_A "claimed J1"]
  from t2 x have "cleanup_audio_file ?L ''/up/j1.wav''
       = Inr (emit (LogWarning (''Failed to delete audio file '' @ ''/up/j1.wav'' @ '': ''
                                 @ str_exn (OSError ''Permission denied'')))
                (emit (CleanupCalled ''/up/j1.wav'') ?L))"
    by blast
  then have b: "cleanup_audio_file ?L ''/up/j1.wav''
       = Inr (emit (LogWarning ''Failed to delete audio file /up/j1.wav: Permission denied'')
                (emit (CleanupCalled ''/up/j1.wav'') ?L))"
    by simp
  note t3 = cleanup_failure_is_swallowed
    [of "sys_world claimed_J1" "''/up/j1.wav''" "OSError ''Permission denied''" "?L" env_A "claimed J1"]
  from t3 s have "store (fst (process_job env_A ?L (claimed J1)))
                    = store (fst (process_job env_A (sys_world claimed_J1) (claimed J1)))"
    "snd (process_job env_A ?L (claimed J1))
                    = snd (process_job env_A (sys_world claimed_J1) (claimed J1))"
    by blast+
  then have c: "store (fst (process_job env_A ?L (claimed J1))) = [completed_J1]"
    "snd (process_job env_A ?L (claimed J1)) = None"
    unfolding pa scenario_A by simp_all
  have d: "files (fst (process_job env_A ?L (claimed J1))) = {''/up/j1.wav''}"
    unfolding claimed_J1_eq by (simp add: scenario_defs process_defs)
  show ?thesis by (intro conjI n a x b s c d)
qed

section \<open>The worker loop\<close>

lemma run_loop_ended:
  "snd (run_loop p es w) \<longleftrightarrow> (\<exists>e \<in> set es. \<not> running e)"
  by (induction es arbitrary: w) simp_all

lemma run_loop_running:
  "\<forall>e \<in> set es. running e \<Longrightarrow> run_loop p es w = (fold (iteration p) es w, False)"
  by (induction es arbitrary: w) simp_all

lemma created_J1_eq:
  "created_J1 = \<lparr>store = [J1], files = {''/up/j1.wav''}, locked = {}, current_job_id = None,
      trace = [LogInfo ''Saved audio file: /up/j1.wav'', LogInfo ''Created job: j1'']\<rparr>"
  unfolding created_J1_def by (simp add: system_defs scenario_defs)

lemma pass_deleted_try:
  "iteration_try 5 pass_deleted created_J1 =
     (\<lparr>store = [], files = {}, locked = {}, current_job_id = None,
       trace = [LogInfo ''Saved audio file: /up/j1.wav'', LogInfo ''Created job: j1'',
                LogInfo ''Picked up job: j1'', LogInfo ''Deleted job: j1'',
                LogInfo ''Processing job j1'',
                TranscribeCalled (transcribe_args (claimed J1) ''instance of small'')]\<rparr>,
      Some (AttributeError ''NoneType has no attribute id''))"
  unfolding created_J1_eq
  by (simp add: iteration_try_def pass_deleted_def delete_job_def system_defs scenario_defs
        process_defs)

text \<open>
  C9. When the body of a pass raises, the exception is logged as a worker error, the
  worker sleeps for the poll interval, and the pass is over; a pass whose flag is set is
  followed by the rest of the loop. So the loop has ended after the passes given exactly
  when one of them read the flag cleared, and as long as the flag is set every pass is
  run, whatever was raised in the passes before.
\<close>

theorem loop_survives_errors:
  "(iteration_try p e w = (w1, Some ex) \<longrightarrow>
      iteration p e w = emit (Slept p) (emit (LogError (''Worker error: '' @ str_exn ex)) w1))
   \<and> (running e \<longrightarrow> run_loop p (e # es) w = run_loop p es (iteration p e w))
   \<and> (snd (run_loop p es w) \<longleftrightarrow> (\<exists>e \<in> set es. \<not> running e))
   \<and> ((\<forall>e \<in> set es. running e) \<longrightarrow> run_loop p es w = (fold (iteration p) es w, False))"
  using run_loop_ended [of p es w] run_loop_running [of es p w]
  by (simp add: iteration_def)

theorem loop_survives_errors_witness:
  "iteration_try 5 pass_deleted created_J1 =
     (\<lparr>store = [], files = {}, locked = {}, current_job_id = None,
       trace = [LogInfo ''Saved audio file: /up/j1.wav'', LogInfo ''Created job: j1'',
                LogInfo ''Picked up job: j1'', LogInfo ''Deleted job: j1'',
                LogInfo ''Processing job j1'',
                TranscribeCalled (transcribe_args (claimed J1) ''instance of small'')]\<rparr>,
      Some (AttributeError ''NoneType has no attribute id''))
   \<and> running pass_deleted \<and> running pass_idle \<and> \<not> running pass_stopped
   \<and> run_loop 5 [pass_deleted, pass_idle, pass_stopped] created_J1 =
       (\<lparr>store = [], files = {}, locked = {}, current_job_id = None,
         trace = [LogInfo ''Saved audio file: /up/j1.wav'', LogInfo ''Created job: j1'',
                  LogInfo ''Picked up job: j1'', LogInfo ''Deleted job: j1'',
                  LogInfo ''Processing job j1'',
                  TranscribeCalled (transcribe_args (claimed J1) ''instance of small''),
                  LogError ''Worker error: NoneType has no attribute id'', Slept 5,
                  Slept 5, LogInfo ''Worker loop ended'']\<rparr>, True)
   \<and> run_loop 5 [pass_deleted, pass_idle] created_J1 =
       (fold (iteration 5) [pass_deleted, pass_idle] created_J1, False)"
proof -
  let ?w1 = "\<lparr>store = [], files = {}, locked = {}, current_job_id = None,
       trace = [LogInfo ''Saved audio file: /up/j1.wav'', LogInfo ''Created job: j1'',
                LogInfo ''Picked up job: j1'', LogInfo ''Deleted job: j1'',
                LogInfo ''Processing job j1'',
                TranscribeCalled (transcribe_args (claimed J1) ''instance of small'')]\<rparr>"
  have r: "running pass_deleted" "running pass_idle" "\<not> running pass_stopped"
    by (simp_all add: pass_deleted_def pass_idle_def pass_stopped_def)
  note t = loop_survives_errors [of 5 pass_deleted created_J1 ?w1
      "AttributeError ''NoneType has no attribute id''" "[pass_idle, pass_stopped]"]
  from t pass_deleted_try
  have i: "iteration 5 pass_deleted created_J1 =
      emit (Slept 5) (emit (LogError (''Worker error: '' @ str_exn (AttributeError ''NoneType has no attribute id''))) ?w1)"
    by blast
  from t r(1)
  have s: "run_loop 5 (pass_deleted # [pass_idle, pass_stopped]) created_J1
            = run_loop 5 [pass_idle, pass_stopped] (iteration 5 pass_deleted created_J1)"
    by blast
  have a: "run_loop 5 [pass_deleted, pass_idle, pass_stopped] created_J1 =
       (\<lparr>store = [], files = {}, locked = {}, current_job_id = None,
         trace = [LogInfo ''Saved audio file: /up/j1.wav'', LogInfo ''Created job: j1'',
                  LogInfo ''Picked up job: j1'', LogInfo ''Deleted job: j1'',
                  LogInfo ''Processing job j1'',
                  TranscribeCalled (transcribe_args (claimed J1) ''instance of small''),
                  LogError ''Worker error: NoneType has no attribute id'', Slept 5,
                  Slept 5, LogInfo ''Worker loop ended'']\<rparr>, True)"
    unfolding s i
    by (simp add: r iteration_def iteration_try_def pass_idle_def pass_stopped_def
          get_next_job_def claim_ok_def query_oldest_pending_def emit_def)
  note u = loop_survives_errors [of 5 pass_deleted created_J1 ?w1
      "AttributeError ''NoneType has no attribute id''" "[pass_deleted, pass_idle]"]
  from u r have b: "run_loop 5 [pass_deleted, pass_idle] created_J1 =
       (fold (iteration 5) [pass_deleted, pass_idle] created_J1, False)"
    by simp
  show ?thesis by (intro conjI pass_deleted_try r a b)
qed

section \<open>Reading a job whose transcript does not parse\<close>






end
